theory Spec2Isabelle
  imports Complex_Main "HOL-Library.Word"
begin

section \<open>Data model\<close>

text \<open>
  Addresses, hashes and hex strings are Python \<open>str\<close>; \<open>bytes\<close> values are lists of
  8-bit words; Python's unbounded integers are \<open>int\<close>.
\<close>

type_synonym address = string
type_synonym bytes = "8 word list"

text \<open>
  The user operation as the three managers read it: the eleven fields that
  \<open>to_list()\<close> serialises (in that order), followed by the derived attributes the
  mempool reads (\<open>factory_address\<close>, \<open>paymaster_address\<close>, both \<open>None\<close> when absent,
  \<open>associated_addresses\<close> and the pinned \<open>code_hash\<close>). The mempool manager reads the
  first field under the attribute name \<open>sender\<close>, the gas manager under \<open>sender_address\<close>.
\<close>

record UserOperation =
  sender_address :: address
  nonce :: int
  init_code :: bytes
  call_data :: bytes
  call_gas_limit :: int
  verification_gas_limit :: int
  pre_verification_gas :: int
  max_fee_per_gas :: int
  max_priority_fee_per_gas :: int
  paymaster_and_data :: bytes
  signature :: bytes
  factory_address :: "address option"
  paymaster_address :: "address option"
  associated_addresses :: "address list"
  code_hash :: string

datatype ValidationExceptionCode = SimulateValidation | InvalidFields | Reputation

datatype BundlerExceptionCode = REJECTED_BY_EP_OR_ACCOUNT

text \<open>Every exception the modelled code raises is a value.\<close>

datatype exception =
    ValidationException ValidationExceptionCode string string
  | ExecutionException bytes
  | BundlerException BundlerExceptionCode string string
  | ValueError string
  | DecodeError
  | TypeError
  | KeyError
  | IndexError

datatype ReputationStatus = OK | THROTTLED | BANNED

section \<open>Python helpers\<close>

text \<open>\<open>sep.join(parts)\<close>.\<close>

fun join :: "string \<Rightarrow> string list \<Rightarrow> string" where
  "join sep [] = []"
| "join sep [x] = x"
| "join sep (x # y # ys) = x @ sep @ join sep (y # ys)"

text \<open>
  A \<open>dict\<close> is an association list with distinct keys in insertion order:
  \<open>d[k] = v\<close> overwrites in place or appends, \<open>del d[k]\<close> removes the entry,
  \<open>k in d\<close> and \<open>d[k]\<close> are \<open>map_of\<close>.
\<close>

fun dict_set :: "'k \<Rightarrow> 'v \<Rightarrow> ('k \<times> 'v) list \<Rightarrow> ('k \<times> 'v) list" where
  "dict_set k v [] = [(k, v)]"
| "dict_set k v ((k', v') # d) = (if k' = k then (k, v) # d else (k', v') # dict_set k v d)"

fun dict_del :: "'k \<Rightarrow> ('k \<times> 'v) list \<Rightarrow> ('k \<times> 'v) list" where
  "dict_del k [] = []"
| "dict_del k ((k', v') # d) = (if k' = k then d else (k', v') # dict_del k d)"

definition dict_has :: "('k \<times> 'v) list \<Rightarrow> 'k \<Rightarrow> bool" where
  "dict_has d k = (map_of d k \<noteq> None)"

section \<open>Mempool manager\<close>

text \<open>\<open>Sender\<close>: the address and the FIFO of queued user operations.\<close>

record Sender =
  address :: address
  user_operations :: "UserOperation list"

definition new_Sender :: "address \<Rightarrow> Sender" where
  "new_Sender a = \<lparr>address = a, user_operations = []\<rparr>"

text \<open>
  Modelled from the spec: \<open>Sender.add_user_operation\<close> is not among the sources. The
  spec says of it: "Enforce per-sender nonce monotonicity: reject duplicates or
  out-of-order nonces with \<open>InvalidFields\<close>" and "nonces are strictly increasing within
  the queue (ties rejected)". An accepted operation is appended to the queue; a rejected
  one leaves the queue as it was.
\<close>

definition Sender_add_user_operation ::
  "Sender \<Rightarrow> UserOperation \<Rightarrow> bool \<Rightarrow> exception + Sender" where
  "Sender_add_user_operation s user_operation is_sender_staked =
     (if user_operations s \<noteq> [] \<and> nonce user_operation \<le> nonce (last (user_operations s))
      then Inl (ValidationException InvalidFields ''invalid nonce'' [])
      else Inr (s\<lparr>user_operations := user_operations s @ [user_operation]\<rparr>))"

text \<open>
  The state of the mempool manager: the two dictionaries it owns, and the
  \<open>ops_seen\<close> counters of the reputation manager it updates.
\<close>

record MempoolManager =
  senders :: "(address \<times> Sender) list"
  entity_no_of_ops_in_mempool :: "(address \<times> int) list"
  ops_seen :: "(address \<times> nat) list"

definition init_MempoolManager :: MempoolManager where
  "init_MempoolManager = \<lparr>senders = [], entity_no_of_ops_in_mempool = [], ops_seen = []\<rparr>"

text \<open>\<open>clear_user_operations\<close>: \<open>self.senders.clear()\<close> and nothing else.\<close>

definition clear_user_operations :: "MempoolManager \<Rightarrow> MempoolManager" where
  "clear_user_operations m = m\<lparr>senders := []\<rparr>"

text \<open>
  Modelled from the spec: \<open>ReputationManager.update_seen_status\<close> is not among the
  sources; the spec says "On each admission, sender/factory/paymaster each have
  \<open>ops_seen += 1\<close>".
\<close>

definition update_seen_status :: "address \<Rightarrow> MempoolManager \<Rightarrow> MempoolManager" where
  "update_seen_status a m =
     m\<lparr>ops_seen := dict_set a (case map_of (ops_seen m) a of None \<Rightarrow> 1 | Some n \<Rightarrow> n + 1)
                      (ops_seen m)\<rparr>"

definition update_all_seen_status ::
  "address \<Rightarrow> address option \<Rightarrow> address option \<Rightarrow> MempoolManager \<Rightarrow> MempoolManager" where
  "update_all_seen_status sender_addr factory_addr paymaster_addr m =
     (let m1 = update_seen_status sender_addr m;
          m2 = (case factory_addr of None \<Rightarrow> m1 | Some f \<Rightarrow> update_seen_status f m1)
      in (case paymaster_addr of None \<Rightarrow> m2 | Some p \<Rightarrow> update_seen_status p m2))"

text \<open>
  \<open>_verify_entity_reputation\<close>. The parameter \<open>entity_no_of_ops\<close> is overwritten with the
  entry of \<open>entity_no_of_ops_in_mempool\<close> before it is read, and that entry is created
  with 0 when missing. The status is the reputation manager's answer \<open>get_status\<close>.
  An exception leaves the state as mutated so far.
\<close>

definition verify_entity_reputation ::
  "(address \<Rightarrow> ReputationStatus) \<Rightarrow> address \<Rightarrow> string \<Rightarrow> int \<Rightarrow> MempoolManager
     \<Rightarrow> (exception + unit) \<times> MempoolManager" where
  "verify_entity_reputation get_status entity_address entity_name entity_no_of_ops m =
     (let m1 = (if \<not> dict_has (entity_no_of_ops_in_mempool m) entity_address
                then m\<lparr>entity_no_of_ops_in_mempool :=
                         dict_set entity_address 0 (entity_no_of_ops_in_mempool m)\<rparr>
                else m);
          entity_no_of_ops' = the (map_of (entity_no_of_ops_in_mempool m1) entity_address);
          status = get_status entity_address
      in if status = BANNED
         then (Inl (ValidationException Reputation
                 (join '' '' [''user operation was dropped because '', entity_address,
                              ''is banned'', entity_name]) []), m1)
         else if status = THROTTLED \<and> entity_no_of_ops' > 0
         then (Inl (ValidationException Reputation
                 (join '' '' [''user operation was dropped'', entity_address,
                              ''is throttled'', entity_name]) []), m1)
         else (Inr (), m1))"

definition verify_entities_reputation ::
  "(address \<Rightarrow> ReputationStatus) \<Rightarrow> address \<Rightarrow> address option \<Rightarrow> address option
     \<Rightarrow> MempoolManager \<Rightarrow> (exception + unit) \<times> MempoolManager" where
  "verify_entities_reputation get_status sender_addr factory_addr paymaster_addr m =
     (let sender_no_of_ops =
            (case map_of (senders m) sender_addr of
               None \<Rightarrow> 0 | Some s \<Rightarrow> int (length (user_operations s)))
      in case verify_entity_reputation get_status sender_addr ''sender'' sender_no_of_ops m of
           (Inl e, m1) \<Rightarrow> (Inl e, m1)
         | (Inr _, m1) \<Rightarrow>
           (case (case factory_addr of
                    None \<Rightarrow> (Inr (), m1)
                  | Some f \<Rightarrow>
                      verify_entity_reputation get_status f ''factory''
                        (case map_of (entity_no_of_ops_in_mempool m1) f of
                           None \<Rightarrow> 0 | Some n \<Rightarrow> n) m1) of
              (Inl e, m2) \<Rightarrow> (Inl e, m2)
            | (Inr _, m2) \<Rightarrow>
              (case paymaster_addr of
                 None \<Rightarrow> (Inr (), m2)
               | Some p \<Rightarrow>
                   verify_entity_reputation get_status p ''paymaster''
                     (case map_of (entity_no_of_ops_in_mempool m2) p of
                        None \<Rightarrow> 0 | Some n \<Rightarrow> n) m2)))"

definition update_entity_no_of_ops_in_mempool :: "address \<Rightarrow> MempoolManager \<Rightarrow> MempoolManager" where
  "update_entity_no_of_ops_in_mempool entity_address m =
     (let no_of_ops = (case map_of (entity_no_of_ops_in_mempool m) entity_address of
                         None \<Rightarrow> 0 | Some n \<Rightarrow> n)
      in m\<lparr>entity_no_of_ops_in_mempool :=
             dict_set entity_address (no_of_ops + 1) (entity_no_of_ops_in_mempool m)\<rparr>)"

text \<open>
  \<open>add_user_operation\<close>. The validation manager's \<open>validate_user_operation\<close> (an RPC
  simulation) and the hash of the operation are oracles: \<open>validate\<close> answers with
  \<open>is_sender_staked\<close> or raises, \<open>get_user_operation_hash\<close> is a function of the
  operation (entry point and chain id fixed). The result pairs the returned hash, or the
  exception raised, with the state the call leaves behind.
\<close>

definition add_user_operation ::
  "(address \<Rightarrow> ReputationStatus) \<Rightarrow> (UserOperation \<Rightarrow> exception + bool)
     \<Rightarrow> (UserOperation \<Rightarrow> string) \<Rightarrow> UserOperation \<Rightarrow> MempoolManager
     \<Rightarrow> (exception + string) \<times> MempoolManager" where
  "add_user_operation get_status validate get_user_operation_hash user_operation m =
     (case verify_entities_reputation get_status (sender_address user_operation)
             (factory_address user_operation) (paymaster_address user_operation) m of
        (Inl e, m1) \<Rightarrow> (Inl e, m1)
      | (Inr _, m1) \<Rightarrow>
        (case validate user_operation of
           Inl e \<Rightarrow> (Inl e, m1)
         | Inr is_sender_staked \<Rightarrow>
           (let new_sender_address = sender_address user_operation;
                m2 = (if \<not> dict_has (senders m1) new_sender_address
                      then m1\<lparr>senders := dict_set new_sender_address
                                 (new_Sender new_sender_address) (senders m1)\<rparr>
                      else m1);
                new_sender = the (map_of (senders m2) new_sender_address)
            in case Sender_add_user_operation new_sender user_operation is_sender_staked of
                 Inl e \<Rightarrow> (Inl e, m2)
               | Inr new_sender' \<Rightarrow>
                 (let m3 = m2\<lparr>senders := dict_set new_sender_address new_sender' (senders m2)\<rparr>;
                      user_operation_hash = get_user_operation_hash user_operation;
                      m4 = update_all_seen_status (sender_address user_operation)
                             (factory_address user_operation)
                             (paymaster_address user_operation) m3;
                      m5 = (case factory_address user_operation of
                              None \<Rightarrow> m4
                            | Some f \<Rightarrow> update_entity_no_of_ops_in_mempool f m4);
                      m6 = (case paymaster_address user_operation of
                              None \<Rightarrow> m5
                            | Some p \<Rightarrow> update_entity_no_of_ops_in_mempool p m5)
                  in (Inr user_operation_hash, m6)))))"

text \<open>
  \<open>get_user_operations_to_bundle\<close>: the loop over \<open>list(self.senders)\<close>, a snapshot of
  the keys. \<open>get_addresses_code_hash\<close> is the validation manager's recomputation of the
  code hash, an oracle. \<open>continue\<close> on a mismatch goes to the next sender at once.
\<close>

fun get_user_operations_to_bundle_loop ::
  "(address list \<Rightarrow> string) \<Rightarrow> address list \<Rightarrow> MempoolManager \<Rightarrow> UserOperation list
     \<Rightarrow> (exception + UserOperation list) \<times> MempoolManager" where
  "get_user_operations_to_bundle_loop get_addresses_code_hash [] m bundle = (Inr bundle, m)"
| "get_user_operations_to_bundle_loop get_addresses_code_hash (sender_addr # rest) m bundle =
     (case map_of (senders m) sender_addr of
        None \<Rightarrow> (Inl KeyError, m)
      | Some sender \<Rightarrow>
        (case user_operations sender of
           [] \<Rightarrow> get_user_operations_to_bundle_loop get_addresses_code_hash rest m bundle
         | user_operation # remaining \<Rightarrow>
           (let sender' = sender\<lparr>user_operations := remaining\<rparr>;
                m1 = m\<lparr>senders := dict_set sender_addr sender' (senders m)\<rparr>;
                new_code_hash = get_addresses_code_hash (associated_addresses user_operation)
            in if new_code_hash \<noteq> code_hash user_operation
               then get_user_operations_to_bundle_loop get_addresses_code_hash rest m1 bundle
               else if length (user_operations sender') = 0
               then (if dict_has (senders m1) (address sender')
                     then get_user_operations_to_bundle_loop get_addresses_code_hash rest
                            (m1\<lparr>senders := dict_del (address sender') (senders m1)\<rparr>)
                            (bundle @ [user_operation])
                     else (Inl KeyError, m1))
               else get_user_operations_to_bundle_loop get_addresses_code_hash rest m1
                      (bundle @ [user_operation]))))"

definition get_user_operations_to_bundle ::
  "(address list \<Rightarrow> string) \<Rightarrow> MempoolManager
     \<Rightarrow> (exception + UserOperation list) \<times> MempoolManager" where
  "get_user_operations_to_bundle get_addresses_code_hash m =
     get_user_operations_to_bundle_loop get_addresses_code_hash (map fst (senders m)) m []"

definition get_all_user_operations :: "MempoolManager \<Rightarrow> UserOperation list" where
  "get_all_user_operations m = concat (map (\<lambda>(a, s). user_operations s) (senders m))"

text \<open>
  Observations of a state: a sender's queue (empty when the sender has no record), the
  in-mempool counter of an entity as the code reads it (0 when the entity has no entry),
  and the number of queued operations that name an entity as factory or paymaster.
\<close>

definition queue_of :: "MempoolManager \<Rightarrow> address \<Rightarrow> UserOperation list" where
  "queue_of m a = (case map_of (senders m) a of None \<Rightarrow> [] | Some s \<Rightarrow> user_operations s)"

definition no_of_ops_of :: "MempoolManager \<Rightarrow> address \<Rightarrow> int" where
  "no_of_ops_of m e =
     (case map_of (entity_no_of_ops_in_mempool m) e of None \<Rightarrow> 0 | Some n \<Rightarrow> n)"

definition no_of_queued_ops_referencing :: "MempoolManager \<Rightarrow> address \<Rightarrow> int" where
  "no_of_queued_ops_referencing m e =
     int (length (filter (\<lambda>u. factory_address u = Some e \<or> paymaster_address u = Some e)
                    (get_all_user_operations m)))"

section \<open>Gas manager: call gas limit\<close>

definition MAX_CALL_GAS_LIMIT :: int where
  "MAX_CALL_GAS_LIMIT = 30000000"

text \<open>\<open>hex(n)\<close> of Python: lower-case digits after \<open>0x\<close>, a leading minus for a negative.\<close>

definition hex_digit :: "nat \<Rightarrow> char" where
  "hex_digit d = ''0123456789abcdef'' ! d"

fun hex_digits :: "nat \<Rightarrow> string" where
  "hex_digits n =
     (if n < 16 then [hex_digit n] else hex_digits (n div 16) @ [hex_digit (n mod 16)])"

declare hex_digits.simps [simp del]

definition hex :: "int \<Rightarrow> string" where
  "hex n = (if n < 0 then ''-0x'' @ hex_digits (nat (- n)) else ''0x'' @ hex_digits (nat n))"

text \<open>
  \<open>get_call_data_gas_used\<close> runs the helper bytecode through \<open>eth_call\<close> at a given call
  gas limit. The node's answer is an oracle: for each limit, the decoded triple
  \<open>(success, gas_used, data)\<close>, or the exception raised on an RPC error.
\<close>

type_synonym gas_helper = "int \<Rightarrow> exception + bool \<times> int \<times> bytes"

text \<open>
  \<open>find_max_min_gas\<close>: the \<open>while\<close> loop with its state \<open>index\<close>, \<open>min_gas\<close>, \<open>max_gas\<close>.
  The probe's triple is unpacked into \<open>success, gas_used, data\<close>, so the \<open>gas_used\<close>
  in \<open>math.ceil(2**index * gas_used)\<close> is the one the probe at \<open>max_gas\<close> has just
  reported; the parameter \<open>gas_used\<close> gives the initial bounds only. The product is an
  integer, which \<open>math.ceil\<close> returns as it is. The loop need not end: no result is \<open>None\<close>.
\<close>

partial_function (option) find_max_min_gas_loop ::
  "gas_helper \<Rightarrow> nat \<Rightarrow> int \<Rightarrow> int \<Rightarrow> (exception + int \<times> int) option" where
  "find_max_min_gas_loop get_call_data_gas_used index min_gas max_gas =
     (if max_gas < MAX_CALL_GAS_LIMIT
      then (case get_call_data_gas_used max_gas of
              Inl e \<Rightarrow> Some (Inl e)
            | Inr (success, gas_used, data) \<Rightarrow>
                if success then Some (Inr (max_gas, min_gas))
                else find_max_min_gas_loop get_call_data_gas_used (index + 1) max_gas
                       (if 2 ^ (index + 1) * gas_used > MAX_CALL_GAS_LIMIT
                        then MAX_CALL_GAS_LIMIT else 2 ^ (index + 1) * gas_used))
      else Some (Inr (max_gas, min_gas)))"

declare find_max_min_gas_loop.simps [code]

definition find_max_min_gas :: "gas_helper \<Rightarrow> int \<Rightarrow> (exception + int \<times> int) option" where
  "find_max_min_gas get_call_data_gas_used gas_used =
     find_max_min_gas_loop get_call_data_gas_used 1 gas_used (2 * gas_used)"

text \<open>
  The expansion as the specification words it: "starting with \<open>min=gasUsed\<close>,
  \<open>max=2*gasUsed\<close>, \<open>i=1\<close>, while \<open>max < MAX_CALL_GAS_LIMIT\<close> and the helper returns
  \<open>!success\<close> at \<open>max\<close>, set \<open>i += 1; min := max; max := ceil(2^i * gasUsed)\<close> (capped at
  \<open>MAX_CALL_GAS_LIMIT\<close>)", with \<open>gasUsed\<close> the gas measured by the initial probe.
\<close>

partial_function (option) find_max_min_gas_spec_loop ::
  "gas_helper \<Rightarrow> int \<Rightarrow> nat \<Rightarrow> int \<Rightarrow> int \<Rightarrow> (exception + int \<times> int) option" where
  "find_max_min_gas_spec_loop helper gasUsed i min_gas max_gas =
     (if max_gas < MAX_CALL_GAS_LIMIT
      then (case helper max_gas of
              Inl e \<Rightarrow> Some (Inl e)
            | Inr (success, g, d) \<Rightarrow>
                if success then Some (Inr (max_gas, min_gas))
                else find_max_min_gas_spec_loop helper gasUsed (i + 1) max_gas
                       (min (2 ^ (i + 1) * gasUsed) MAX_CALL_GAS_LIMIT))
      else Some (Inr (max_gas, min_gas)))"

declare find_max_min_gas_spec_loop.simps [code]

definition find_max_min_gas_spec :: "gas_helper \<Rightarrow> int \<Rightarrow> (exception + int \<times> int) option" where
  "find_max_min_gas_spec helper gasUsed =
     find_max_min_gas_spec_loop helper gasUsed 1 gasUsed (2 * gasUsed)"

text \<open>
  The binary search of \<open>estimate_call_gas_limit_binary_search\<close>.
  \<open>math.ceil((right-left) / 2)\<close> divides in double precision, which is exact for the
  differences below \<open>2^53\<close> that gas limits give; the model divides exactly.
\<close>

function estimate_call_gas_limit_binary_search_loop ::
  "gas_helper \<Rightarrow> int \<Rightarrow> int \<Rightarrow> exception + int" where
  "estimate_call_gas_limit_binary_search_loop get_call_data_gas_used left right =
     (if left + 5000 < right
      then (case get_call_data_gas_used (left + \<lceil>rat_of_int (right - left) / 2\<rceil>) of
              Inl e \<Rightarrow> Inl e
            | Inr (success, gas_used, data) \<Rightarrow>
                if success
                then estimate_call_gas_limit_binary_search_loop get_call_data_gas_used left
                       (left + \<lceil>rat_of_int (right - left) / 2\<rceil>)
                else estimate_call_gas_limit_binary_search_loop get_call_data_gas_used
                       (left + \<lceil>rat_of_int (right - left) / 2\<rceil> + 1) right)
      else Inr right)"
  by pat_completeness auto
termination
proof (relation "measure (\<lambda>(h, left, right). nat (right - left))")
  show "wf (measure (\<lambda>(h, left, right). nat (right - left)))"
    by simp
next
  fix h :: gas_helper and left right :: int
  assume a: "left + 5000 < right"
  have c: "\<lceil>rat_of_int (right - left) / 2\<rceil> = (right - left + 1) div 2"
    by (simp add: ceiling_divide_eq_div [where ?'a = rat, of "right - left" 2, simplified])
  show "((h, left, left + \<lceil>rat_of_int (right - left) / 2\<rceil>), (h, left, right))
          \<in> measure (\<lambda>(h, left, right). nat (right - left))"
    using a unfolding c by simp
  show "((h, left + \<lceil>rat_of_int (right - left) / 2\<rceil> + 1, right), (h, left, right))
          \<in> measure (\<lambda>(h, left, right). nat (right - left))"
    using a unfolding c by simp
qed

declare estimate_call_gas_limit_binary_search_loop.simps [simp del]

definition estimate_call_gas_limit_binary_search ::
  "gas_helper \<Rightarrow> (exception + string) option" where
  "estimate_call_gas_limit_binary_search get_call_data_gas_used =
     (case get_call_data_gas_used MAX_CALL_GAS_LIMIT of
        Inl e \<Rightarrow> Some (Inl e)
      | Inr (success, gas_used, data) \<Rightarrow>
          if \<not> success then Some (Inl (ExecutionException data))
          else (case find_max_min_gas get_call_data_gas_used gas_used of
                  None \<Rightarrow> None
                | Some (Inl e) \<Rightarrow> Some (Inl e)
                | Some (Inr (right, left)) \<Rightarrow>
                    (case estimate_call_gas_limit_binary_search_loop get_call_data_gas_used
                            left right of
                       Inl e \<Rightarrow> Some (Inl e)
                     | Inr r \<Rightarrow> Some (Inr (hex r)))))"

section \<open>Gas manager: gas price verification\<close>


section \<open>Gas manager: pre-verification gas\<close>

text \<open>
  \<open>calc_base_preverification_gas\<close> assigns to elements of the list that \<open>to_list()\<close>
  returns, so objects live in a store: a reference is an index into the list of allocated
  objects, allocation appends. An object is a user operation or a Python list of field
  values.
\<close>

datatype field = FStr string | FInt int | FBytes bytes

datatype object = UserOperationObject UserOperation | ListObject "field list"

type_synonym heap = "object list"

type_synonym 'a prog = "heap \<Rightarrow> (exception + 'a) \<times> heap"

definition heap_lookup :: "heap \<Rightarrow> nat \<Rightarrow> object option" where
  "heap_lookup h r = (if r < length h then Some (h ! r) else None)"

definition ret :: "'a \<Rightarrow> 'a prog" where
  "ret x h = (Inr x, h)"

text \<open>Sequencing: an exception ends the computation and keeps the store reached.\<close>

definition seq :: "'a prog \<Rightarrow> ('a \<Rightarrow> 'b prog) \<Rightarrow> 'b prog" where
  "seq m f h = (case m h of (Inl e, h') \<Rightarrow> (Inl e, h') | (Inr x, h') \<Rightarrow> f x h')"

definition read_user_operation :: "nat \<Rightarrow> UserOperation prog" where
  "read_user_operation r h =
     (case heap_lookup h r of
        Some (UserOperationObject u) \<Rightarrow> (Inr u, h)
      | _ \<Rightarrow> (Inl TypeError, h))"

definition read_list :: "nat \<Rightarrow> (field list) prog" where
  "read_list r h =
     (case heap_lookup h r of
        Some (ListObject xs) \<Rightarrow> (Inr xs, h)
      | _ \<Rightarrow> (Inl TypeError, h))"

text \<open>\<open>xs[i]\<close> and \<open>xs[i] = v\<close> on the list at a reference.\<close>

definition list_getitem :: "nat \<Rightarrow> nat \<Rightarrow> field prog" where
  "list_getitem r i h =
     (case heap_lookup h r of
        Some (ListObject xs) \<Rightarrow> (if i < length xs then (Inr (xs ! i), h) else (Inl IndexError, h))
      | _ \<Rightarrow> (Inl TypeError, h))"

definition list_setitem :: "nat \<Rightarrow> nat \<Rightarrow> field \<Rightarrow> unit prog" where
  "list_setitem r i v h =
     (case heap_lookup h r of
        Some (ListObject xs) \<Rightarrow>
          (if i < length xs then (Inr (), h[r := ListObject (xs[i := v])])
           else (Inl IndexError, h))
      | _ \<Rightarrow> (Inl TypeError, h))"

text \<open>\<open>len(x)\<close> of a field value.\<close>

definition len :: "field \<Rightarrow> nat prog" where
  "len x h =
     (case x of
        FStr s \<Rightarrow> (Inr (length s), h)
      | FBytes b \<Rightarrow> (Inr (length b), h)
      | FInt n \<Rightarrow> (Inl TypeError, h))"

definition user_operation_fields :: "UserOperation \<Rightarrow> field list" where
  "user_operation_fields u =
     [FStr (sender_address u), FInt (nonce u), FBytes (init_code u), FBytes (call_data u),
      FInt (call_gas_limit u), FInt (verification_gas_limit u),
      FInt (pre_verification_gas u), FInt (max_fee_per_gas u),
      FInt (max_priority_fee_per_gas u), FBytes (paymaster_and_data u),
      FBytes (signature u)]"

text \<open>
  Modelled from the spec: \<open>UserOperation.to_list\<close> is not among the sources. The spec
  lists the fields in the order "sender address, nonce, initCode, callData, callGasLimit,
  verificationGasLimit, preVerificationGas, maxFeePerGas, maxPriorityFeePerGas,
  paymasterAndData, signature" and says of the pre-verification gas: "clone the op and
  set \<open>preVerificationGas := 21000\<close>". \<open>to_list\<close> allocates a new list holding the
  eleven field values and returns its reference.
\<close>

definition to_list :: "nat \<Rightarrow> nat prog" where
  "to_list r h =
     (case heap_lookup h r of
        Some (UserOperationObject u) \<Rightarrow>
          (Inr (length h), h @ [ListObject (user_operation_fields u)])
      | _ \<Rightarrow> (Inl TypeError, h))"

text \<open>
  \<open>calc_base_preverification_gas\<close>. The packing routine
  \<open>UserOperationHandler.pack_user_operation(user_operation_list, False)\<close> is not among
  the sources and is a parameter. \<open>fixed / bundle_size\<close> and
  \<open>(packed_length + 31) / 32\<close> are true divisions, exact in double precision for every
  length a packed operation can have; the model divides exactly, in the rationals.
\<close>

definition calc_base_preverification_gas :: "(field list \<Rightarrow> bytes) \<Rightarrow> nat \<Rightarrow> int prog" where
  "calc_base_preverification_gas pack_user_operation user_operation =
     seq (to_list user_operation) (\<lambda>user_operation_list.
     seq (list_setitem user_operation_list 6 (FInt 21000)) (\<lambda>_.
     seq (list_getitem user_operation_list 10) (\<lambda>sig.
     seq (len sig) (\<lambda>sig_len.
     seq (if sig_len < 65
          then list_setitem user_operation_list 10 (FBytes (replicate 65 1))
          else ret ()) (\<lambda>_.
     seq (read_list user_operation_list) (\<lambda>fields.
       (let fixed = 21000 :: int;
            per_user_operation = 18300 :: int;
            per_user_operation_word = 4 :: int;
            zero_byte = 4 :: int;
            non_zero_byte = 16 :: int;
            bundle_size = 1 :: int;
            packed = pack_user_operation fields;
            packed_length = int (length packed);
            zero_byte_count = int (count_list packed 0);
            non_zero_byte_count = packed_length - zero_byte_count;
            call_data_cost = zero_byte_count * zero_byte + non_zero_byte_count * non_zero_byte;
            length_in_words = \<lceil>rat_of_int (packed_length + 31) / 32\<rceil>;
            pre_verification_gas =
              rat_of_int call_data_cost + rat_of_int fixed / rat_of_int bundle_size
                + rat_of_int per_user_operation
                + rat_of_int (per_user_operation_word * length_in_words)
        in ret \<lceil>pre_verification_gas\<rceil>)))))))"

text \<open>
  The L1 estimates. Each serialises the operation with \<open>to_list()\<close> and asks a contract
  through \<open>eth_call\<close>; the decoded answers are oracles, \<open>getL1Fee\<close> of the serialised
  operation and \<open>gasEstimateL1Component\<close> of \<open>is_init\<close> and the serialised operation.
\<close>

definition calc_l1_gas_estimate_optimism ::
  "(field list \<Rightarrow> int) \<Rightarrow> nat \<Rightarrow> int \<Rightarrow> int prog" where
  "calc_l1_gas_estimate_optimism getL1Fee user_operation latest_block_base_fee =
     seq (to_list user_operation) (\<lambda>l.
     seq (read_list l) (\<lambda>fields.
     seq (read_user_operation user_operation) (\<lambda>u.
       (let l1_fee = getL1Fee fields;
            l2_gas_price = min (max_fee_per_gas u)
                             (max_priority_fee_per_gas u + latest_block_base_fee);
            l2_gas_price' = max 1 l2_gas_price
        in ret \<lceil>rat_of_int l1_fee / rat_of_int l2_gas_price'\<rceil>))))"

definition calc_l1_gas_estimate_arbitrum ::
  "(bool \<Rightarrow> field list \<Rightarrow> int) \<Rightarrow> nat \<Rightarrow> int prog" where
  "calc_l1_gas_estimate_arbitrum gasEstimateL1Component user_operation =
     seq (read_user_operation user_operation) (\<lambda>u.
     seq (to_list user_operation) (\<lambda>l.
     seq (read_list l) (\<lambda>fields.
       ret (gasEstimateL1Component (nonce u = 0) fields))))"

definition get_preverification_gas ::
  "int \<Rightarrow> (field list \<Rightarrow> bytes) \<Rightarrow> (field list \<Rightarrow> int) \<Rightarrow> (bool \<Rightarrow> field list \<Rightarrow> int)
     \<Rightarrow> nat \<Rightarrow> int \<Rightarrow> int \<Rightarrow> int \<Rightarrow> int prog" where
  "get_preverification_gas chain_id pack_user_operation getL1Fee gasEstimateL1Component
       user_operation latest_block_base_fee preverification_gas_percentage_coefficient
       preverification_gas_addition_constant =
     seq (calc_base_preverification_gas pack_user_operation user_operation)
       (\<lambda>base_preverification_gas.
     seq (if chain_id = 10 \<or> chain_id = 420
          then calc_l1_gas_estimate_optimism getL1Fee user_operation latest_block_base_fee
          else if chain_id = 42161
          then calc_l1_gas_estimate_arbitrum gasEstimateL1Component user_operation
          else ret 0) (\<lambda>l1_gas.
       (let calculated_preverification_gas = base_preverification_gas + l1_gas;
            adjusted_preverification_gas =
              \<lceil>rat_of_int (calculated_preverification_gas
                             * preverification_gas_percentage_coefficient) / 100
                 + rat_of_int preverification_gas_addition_constant\<rceil>
        in ret adjusted_preverification_gas)))"

section \<open>Validation manager\<close>

record ReturnInfo =
  preOpGas :: int
  prefund :: int
  sigFailed :: bool
  validAfter :: int
  validUntil :: int

record StakeInfo =
  stake :: int
  unstakeDelaySec :: int

text \<open>
  The answer of the node to a JSON-RPC request: \<open>{"result": r}\<close>, or
  \<open>{"error": {"message": m, "data": d}}\<close> where \<open>"data"\<close> may be missing.
\<close>

datatype rpc_response = RpcResult string | RpcError string "string option"

text \<open>
  Modelled from the spec: the class \<open>FailedOpRevertData\<close> is not among the sources. Its
  \<open>SELECTOR\<close> is the selector of \<open>FailedOp(uint256,address,string)\<close>, which the spec
  gives as \<open>0x220266b6\<close> and \<open>gas_manager.py\<close> writes as a literal.
\<close>

definition FailedOpRevertData_SELECTOR :: string where
  "FailedOpRevertData_SELECTOR = ''0x220266b6''"

text \<open>
  \<open>simulate_validation\<close>: \<open>eth_call\<close> is the node, answering the request built from the
  operation. The first ten characters of the error data (\<open>0x\<close> and eight hex digits) are
  the selector, the rest the parameters.
\<close>

definition simulate_validation ::
  "(UserOperation \<Rightarrow> rpc_response) \<Rightarrow> UserOperation \<Rightarrow> exception + string \<times> string" where
  "simulate_validation eth_call user_operation =
     (case eth_call user_operation of
        RpcResult r \<Rightarrow> Inl (ValueError ''simulateValidation didn't revert!'')
      | RpcError message data \<Rightarrow>
          if message \<noteq> ''execution reverted''
          then Inl (ValueError ''simulateValidation didn't revert!'')
          else (case data of
                  None \<Rightarrow> Inl KeyError
                | Some error_data \<Rightarrow> Inr (take 10 error_data, drop 10 error_data)))"

definition check_if_failed_op_error :: "string \<Rightarrow> bool" where
  "check_if_failed_op_error solidity_error_selector =
     (solidity_error_selector = FailedOpRevertData_SELECTOR)"

text \<open>
  The two decoders. \<open>decode\<close> of the library \<open>eth_abi\<close>, applied to
  \<open>bytes.fromhex(solidity_error_params)\<close>, is a parameter at each of the two type lists:
  it returns the decoded tuple or raises.
\<close>

type_synonym validation_result_tuple =
  "(int \<times> int \<times> bool \<times> int \<times> int \<times> bytes) \<times> (int \<times> int) \<times> (int \<times> int) \<times> (int \<times> int)"

definition decode_validation_result_event ::
  "(string \<Rightarrow> exception + validation_result_tuple) \<Rightarrow> string
     \<Rightarrow> exception + ReturnInfo \<times> StakeInfo \<times> StakeInfo \<times> StakeInfo" where
  "decode_validation_result_event decode_validation_result solidity_error_params =
     (case decode_validation_result solidity_error_params of
        Inl e \<Rightarrow> Inl e
      | Inr ((r0, r1, r2, r3, r4, r5), (s0, s1), (f0, f1), (p0, p1)) \<Rightarrow>
          Inr (\<lparr>preOpGas = r0, prefund = r1, sigFailed = r2, validAfter = r3,
                 validUntil = r4\<rparr>,
               \<lparr>stake = s0, unstakeDelaySec = s1\<rparr>,
               \<lparr>stake = f0, unstakeDelaySec = f1\<rparr>,
               \<lparr>stake = p0, unstakeDelaySec = p1\<rparr>))"

definition decode_FailedOp_event ::
  "(string \<Rightarrow> exception + int \<times> string \<times> string) \<Rightarrow> string
     \<Rightarrow> exception + int \<times> string \<times> string" where
  "decode_FailedOp_event decode_failed_op solidity_error_params =
     (case decode_failed_op solidity_error_params of
        Inl e \<Rightarrow> Inl e
      | Inr (operation_index, paymaster, reason) \<Rightarrow> Inr (operation_index, paymaster, reason))"

definition simulate_validation_and_decode_result ::
  "(UserOperation \<Rightarrow> rpc_response) \<Rightarrow> (string \<Rightarrow> exception + int \<times> string \<times> string)
     \<Rightarrow> (string \<Rightarrow> exception + validation_result_tuple) \<Rightarrow> UserOperation
     \<Rightarrow> exception + ReturnInfo \<times> StakeInfo \<times> StakeInfo \<times> StakeInfo" where
  "simulate_validation_and_decode_result eth_call decode_failed_op decode_validation_result
       user_operation =
     (case simulate_validation eth_call user_operation of
        Inl e \<Rightarrow> Inl e
      | Inr (solidity_error_selector, solidity_error_params) \<Rightarrow>
          if check_if_failed_op_error solidity_error_selector
          then (case decode_FailedOp_event decode_failed_op solidity_error_params of
                  Inl e \<Rightarrow> Inl e
                | Inr (_, _, reason) \<Rightarrow>
                    Inl (BundlerException REJECTED_BY_EP_OR_ACCOUNT
                           (''revert reason : '' @ reason) solidity_error_params))
          else decode_validation_result_event decode_validation_result solidity_error_params)"


section \<open>Concrete inputs\<close>

definition addr_A :: address where
  "addr_A = ''0xaaaaaaaaaaaaaaaaaaaaaaaaaaaaaaaaaaaaaaaa''"

definition addr_P :: address where
  "addr_P = ''0xbbbbbbbbbbbbbbbbbbbbbbbbbbbbbbbbbbbbbbbb''"

definition example_op :: UserOperation where
  "example_op = \<lparr>sender_address = addr_A, nonce = 0, init_code = [], call_data = [],
     call_gas_limit = 0, verification_gas_limit = 0, pre_verification_gas = 0,
     max_fee_per_gas = 0, max_priority_fee_per_gas = 0, paymaster_and_data = [],
     signature = [], factory_address = None, paymaster_address = None,
     associated_addresses = [addr_A], code_hash = ''h1''\<rparr>"

definition example_op_next :: UserOperation where
  "example_op_next = example_op\<lparr>nonce := 1\<rparr>"

definition example_op_paymaster :: UserOperation where
  "example_op_paymaster = example_op\<lparr>paymaster_address := Some addr_P\<rparr>"

definition status_ok :: "address \<Rightarrow> ReputationStatus" where
  "status_ok a = OK"

definition status_throttled :: "address \<Rightarrow> ReputationStatus" where
  "status_throttled a = THROTTLED"


definition validate_ok :: "UserOperation \<Rightarrow> exception + bool" where
  "validate_ok u = Inr False"

definition hash_of :: "UserOperation \<Rightarrow> string" where
  "hash_of u = ''0xhash''"

definition code_hash_same :: "address list \<Rightarrow> string" where
  "code_hash_same as = ''h1''"

definition code_hash_changed :: "address list \<Rightarrow> string" where
  "code_hash_changed as = ''h2''"

text \<open>The mempool after admitting \<open>example_op\<close>, and after admitting \<open>example_op_paymaster\<close>.\<close>

definition mempool_one_op :: MempoolManager where
  "mempool_one_op =
     snd (add_user_operation status_ok validate_ok hash_of example_op init_MempoolManager)"

definition mempool_paymaster_op :: MempoolManager where
  "mempool_paymaster_op =
     snd (add_user_operation status_ok validate_ok hash_of example_op_paymaster
            init_MempoolManager)"

text \<open>
  Answers of the gas helper. \<open>helper_needs_250000\<close>: a call that uses 100000 gas and
  fails, consuming its whole limit, below 250000. \<open>helper_optional_work\<close>: a call that
  succeeds from 73421 gas on and uses up to 100000 when it is given more.
  \<open>helper_exact\<close>: a call that uses 73421 gas.
\<close>

definition helper_needs_250000 :: gas_helper where
  "helper_needs_250000 G = Inr (250000 \<le> G, if 250000 \<le> G then 100000 else G, [])"

definition helper_optional_work :: gas_helper where
  "helper_optional_work G = Inr (73421 \<le> G, min G 100000, [])"

definition helper_exact :: gas_helper where
  "helper_exact G = Inr (73421 \<le> G, min (max G 1) 73421, [])"




text \<open>
  A packing routine to run the model on: byte strings as they are, an integer as 31 zero
  bytes and its low byte, the address as 32 zero bytes.
\<close>

definition pack_example :: "field list \<Rightarrow> bytes" where
  "pack_example fs =
     concat (map (\<lambda>f. case f of
                        FStr s \<Rightarrow> replicate 32 0
                      | FInt n \<Rightarrow> replicate 31 0 @ [of_int n]
                      | FBytes b \<Rightarrow> b) fs)"

definition getL1Fee_example :: "field list \<Rightarrow> int" where
  "getL1Fee_example fs = 1000000"

definition gasEstimateL1Component_example :: "bool \<Rightarrow> field list \<Rightarrow> int" where
  "gasEstimateL1Component_example is_init fs = 5000"

definition heap_one_op :: heap where
  "heap_one_op = [UserOperationObject example_op]"

text \<open>
  A revert payload with the selector \<open>0xfaecb4e4\<close>, which is neither the selector of
  \<open>FailedOp\<close> nor that of \<open>ValidationResult\<close>: five values, a return info, three
  stake infos and an aggregator with its stake info, as the entry point reverts with for
  an account that uses an aggregator. The head holds the offset of the return info and
  the three stake infos where the four-value type list expects them, so the library
  decodes the parameters at that type list to the tuple \<open>decoded_aggregated_result\<close>.
\<close>

definition aggregated_result_params :: string where
  "aggregated_result_params = concat
       [''0000000000000000000000000000000000000000000000000000000000000140'',
        ''0000000000000000000000000000000000000000000000000de0b6b3a7640000'',
        ''0000000000000000000000000000000000000000000000000000000000015180'',
        ''0000000000000000000000000000000000000000000000000000000000000000'',
        ''0000000000000000000000000000000000000000000000000000000000000000'',
        ''0000000000000000000000000000000000000000000000000000000000000000'',
        ''0000000000000000000000000000000000000000000000000000000000000000'',
        ''000000000000000000000000cccccccccccccccccccccccccccccccccccccccc'',
        ''0000000000000000000000000000000000000000000000000de0b6b3a7640000'',
        ''0000000000000000000000000000000000000000000000000000000000015180'',
        ''0000000000000000000000000000000000000000000000000000000000030d40'',
        ''0000000000000000000000000000000000000000000000000000000000000000'',
        ''0000000000000000000000000000000000000000000000000000000000000000'',
        ''0000000000000000000000000000000000000000000000000000000000000000'',
        ''0000000000000000000000000000000000000000000000000000000000000000'',
        ''00000000000000000000000000000000000000000000000000000000000000c0'',
        ''0000000000000000000000000000000000000000000000000000000000000000'']"

definition aggregated_result_node :: "UserOperation \<Rightarrow> rpc_response" where
  "aggregated_result_node user_operation =
     RpcError ''execution reverted'' (Some (''0xfaecb4e4'' @ aggregated_result_params))"

definition decoded_aggregated_result :: validation_result_tuple where
  "decoded_aggregated_result =
     ((200000, 0, False, 0, 0, []), (1000000000000000000, 86400), (0, 0), (0, 0))"

definition decode_validation_result_example ::
  "string \<Rightarrow> exception + validation_result_tuple" where
  "decode_validation_result_example params =
     (if params = aggregated_result_params then Inr decoded_aggregated_result
      else Inl DecodeError)"

definition decode_failed_op_example :: "string \<Rightarrow> exception + int \<times> string \<times> string" where
  "decode_failed_op_example params = Inl DecodeError"

section \<open>Properties of the mempool manager\<close>

lemmas mempool_eval =
  add_user_operation_def verify_entities_reputation_def verify_entity_reputation_def
  dict_has_def new_Sender_def Sender_add_user_operation_def update_all_seen_status_def
  update_seen_status_def update_entity_no_of_ops_in_mempool_def init_MempoolManager_def
  example_op_def status_ok_def validate_ok_def hash_of_def addr_A_def Let_def

lemma mempool_one_op_eq:
  "mempool_one_op =
     \<lparr>senders = [(addr_A, \<lparr>address = addr_A, user_operations = [example_op]\<rparr>)],
      entity_no_of_ops_in_mempool = [(addr_A, 0)], ops_seen = [(addr_A, 1)]\<rparr>"
  unfolding mempool_one_op_def by (simp add: mempool_eval)

lemma mempool_paymaster_op_eq:
  "mempool_paymaster_op =
     \<lparr>senders = [(addr_A, \<lparr>address = addr_A, user_operations = [example_op_paymaster]\<rparr>)],
      entity_no_of_ops_in_mempool = [(addr_A, 0), (addr_P, 1)],
      ops_seen = [(addr_A, 1), (addr_P, 1)]\<rparr>"
  unfolding mempool_paymaster_op_def
  by (simp add: mempool_eval example_op_paymaster_def addr_P_def)

text \<open>
  What the reputation check does for one entity: a BANNED entity is rejected whatever the
  counts are; a THROTTLED entity is rejected when its entry in
  \<open>entity_no_of_ops_in_mempool\<close> is positive; and the count passed by the caller has no
  effect on the outcome.
\<close>

lemma verify_entity_reputation_banned:
  "get_status a = BANNED \<Longrightarrow>
   \<exists>msg m'. verify_entity_reputation get_status a nm n m
              = (Inl (ValidationException Reputation msg []), m')"
  by (simp add: verify_entity_reputation_def Let_def)

lemma verify_entity_reputation_throttled:
  "get_status a = THROTTLED \<Longrightarrow> 0 < no_of_ops_of m a \<Longrightarrow>
   \<exists>msg m'. verify_entity_reputation get_status a nm n m
              = (Inl (ValidationException Reputation msg []), m')"
  by (auto simp: verify_entity_reputation_def Let_def no_of_ops_of_def dict_has_def
        split: option.splits)

lemma verify_entity_reputation_ignores_count:
  "verify_entity_reputation get_status a nm n m = verify_entity_reputation get_status a nm n' m"
  by (simp add: verify_entity_reputation_def Let_def)

text \<open>
  C1. A throttled entity with an operation already in the mempool is to be rejected, a
  sender being counted by its queue. The code counts every entity, the sender too, by
  \<open>entity_no_of_ops_in_mempool\<close>: here the sender is THROTTLED and has one operation
  queued, its counter is 0, and the second operation is admitted and queued.
\<close>

theorem throttled_sender_with_queued_op_admitted:
  "status_throttled addr_A = THROTTLED
   \<and> queue_of mempool_one_op addr_A = [example_op]
   \<and> fst (add_user_operation status_throttled validate_ok hash_of example_op_next
            mempool_one_op) = Inr (hash_of example_op_next)
   \<and> queue_of (snd (add_user_operation status_throttled validate_ok hash_of example_op_next
                     mempool_one_op)) addr_A = [example_op, example_op_next]"
  unfolding mempool_one_op_eq
  by (simp add: mempool_eval status_throttled_def example_op_next_def queue_of_def)

text \<open>
  C2. Invariant M2 says that the counter of an entity equals the number of queued
  operations naming it as factory or paymaster. Bundling and clearing remove operations
  and leave the counters alone: after admitting one operation with paymaster \<open>addr_P\<close>
  and bundling it (or clearing the mempool), no operation is queued and the counter of
  \<open>addr_P\<close> is still 1.
\<close>

theorem entity_count_survives_bundle_and_clear:
  "fst (get_user_operations_to_bundle code_hash_same mempool_paymaster_op)
     = Inr [example_op_paymaster]
   \<and> no_of_queued_ops_referencing
       (snd (get_user_operations_to_bundle code_hash_same mempool_paymaster_op)) addr_P = 0
   \<and> map_of (entity_no_of_ops_in_mempool
       (snd (get_user_operations_to_bundle code_hash_same mempool_paymaster_op))) addr_P
       = Some 1
   \<and> no_of_queued_ops_referencing (clear_user_operations mempool_paymaster_op) addr_P = 0
   \<and> map_of (entity_no_of_ops_in_mempool (clear_user_operations mempool_paymaster_op)) addr_P
       = Some 1"
  unfolding mempool_paymaster_op_eq
  by (simp add: get_user_operations_to_bundle_def get_all_user_operations_def
        clear_user_operations_def no_of_queued_ops_referencing_def code_hash_same_def
        example_op_paymaster_def example_op_def addr_A_def addr_P_def dict_has_def Let_def)







text \<open>
  C4. A sender whose queue becomes empty is to be removed, also when its only operation
  was dropped for a code-hash mismatch. On a mismatch the loop continues with the next
  sender before it reaches the removal: here the only operation is dropped, the bundle is
  empty, and the sender stays in the senders map with an empty queue.
\<close>

theorem code_hash_mismatch_keeps_empty_sender:
  "code_hash_changed (associated_addresses example_op) \<noteq> code_hash example_op
   \<and> get_user_operations_to_bundle code_hash_changed mempool_one_op
     = (Inr [], mempool_one_op\<lparr>senders := [(addr_A, \<lparr>address = addr_A, user_operations = []\<rparr>)]\<rparr>)
   \<and> dict_has (senders (snd (get_user_operations_to_bundle code_hash_changed mempool_one_op)))
        addr_A"
  unfolding mempool_one_op_eq
  by (simp add: get_user_operations_to_bundle_def code_hash_changed_def example_op_def
        addr_A_def dict_has_def Let_def)

section \<open>Properties of the call gas estimation\<close>

lemma ceiling_half: "\<lceil>rat_of_int d / 2\<rceil> = (d + 1) div 2"
  by (simp add: ceiling_divide_eq_div [where ?'a = rat, of d 2, simplified])

text \<open>
  C9. The expansion is to compute the specification's sequence, with \<open>gasUsed\<close> fixed to
  the gas measured by the initial probe. The code multiplies \<open>2**index\<close> by the gas used
  that the last failed probe reported: with 100000 gas measured at the maximum and a probe
  at 200000 that fails having used 200000, the code goes on to 800000 where the
  specification's loop goes to 400000.
\<close>

theorem find_max_min_gas_differs_from_spec:
  "find_max_min_gas helper_needs_250000 100000 = Some (Inr (800000, 200000))
   \<and> find_max_min_gas_spec helper_needs_250000 100000 = Some (Inr (400000, 200000))"
  by (simp add: find_max_min_gas_def find_max_min_gas_spec_def find_max_min_gas_loop.simps
        find_max_min_gas_spec_loop.simps helper_needs_250000_def MAX_CALL_GAS_LIMIT_def)

lemma helper_optional_work_succeeds_iff:
  "\<exists>g d. helper_optional_work G = Inr (73421 \<le> G, g, d)"
  by (simp add: helper_optional_work_def)

text \<open>
  C7, as stated: a helper that succeeds exactly from 73421 gas on gives an estimate
  between 73421 and 78421. It fails: the search starts from the gas used that the initial
  probe reports. \<open>helper_optional_work\<close> succeeds exactly from 73421 on and reports
  100000 gas used at the maximum; the estimate is 103125.
\<close>

theorem estimate_above_tolerance:
  "helper_optional_work MAX_CALL_GAS_LIMIT = Inr (True, 100000, [])
   \<and> estimate_call_gas_limit_binary_search helper_optional_work = Some (Inr (hex 103125))
   \<and> \<not> (103125 :: int) \<le> 73421 + 5000"
  by (simp add: estimate_call_gas_limit_binary_search_def find_max_min_gas_def
        find_max_min_gas_loop.simps helper_optional_work_def MAX_CALL_GAS_LIMIT_def
        estimate_call_gas_limit_binary_search_loop.simps ceiling_half)

lemma expansion_returns:
  assumes H: "\<forall>G. \<exists>g d. helper G = Inr (73421 \<le> G, g, d) \<and> 1 \<le> g"
  shows "min_gas \<le> 73421 \<Longrightarrow> min (2 ^ index) MAX_CALL_GAS_LIMIT \<le> max_gas \<Longrightarrow>
         \<exists>r l. find_max_min_gas_loop helper index min_gas max_gas = Some (Inr (r, l))
               \<and> l \<le> 73421 \<and> 73421 \<le> r"
proof (induction "25 - index" arbitrary: index min_gas max_gas rule: less_induct)
  case less
  show ?case
  proof (cases "max_gas < MAX_CALL_GAS_LIMIT")
    case False
    then show ?thesis using less.prems
      by (subst find_max_min_gas_loop.simps) (simp add: MAX_CALL_GAS_LIMIT_def)
  next
    case True
    obtain g d where h: "helper max_gas = Inr (73421 \<le> max_gas, g, d)" and g: "1 \<le> g"
      using H by blast
    show ?thesis
    proof (cases "73421 \<le> max_gas")
      case True
      then show ?thesis using less.prems h \<open>max_gas < MAX_CALL_GAS_LIMIT\<close>
        by (subst find_max_min_gas_loop.simps) simp
    next
      case False
      have p: "(2::int) ^ index \<le> max_gas"
        using less.prems(2) True by (simp add: min_def split: if_splits)
      have idx: "index < 25"
      proof (rule ccontr)
        assume "\<not> index < 25"
        then have "(2::int) ^ 25 \<le> 2 ^ index" by (intro power_increasing) auto
        then show False using p True by (simp add: MAX_CALL_GAS_LIMIT_def)
      qed
      let ?m = "if 2 ^ (index + 1) * g > MAX_CALL_GAS_LIMIT
                then MAX_CALL_GAS_LIMIT else 2 ^ (index + 1) * g"
      have le: "(2::int) ^ (index + 1) \<le> 2 ^ (index + 1) * g"
        using mult_left_mono [of 1 g "2 ^ (index + 1)"] g by simp
      have m: "min (2 ^ (index + 1)) MAX_CALL_GAS_LIMIT \<le> ?m"
        using le by (simp add: min_le_iff_disj)
      have "\<exists>r l. find_max_min_gas_loop helper (index + 1) max_gas ?m = Some (Inr (r, l))
               \<and> l \<le> 73421 \<and> 73421 \<le> r"
        using idx False m by (intro less.hyps) auto
      then show ?thesis using h False True
        by (subst find_max_min_gas_loop.simps) simp
    qed
  qed
qed

lemma binary_search_returns:
  assumes H: "\<forall>G. \<exists>g d. helper G = Inr (73421 \<le> G, g, d) \<and> 1 \<le> g"
  shows "left \<le> 73421 \<Longrightarrow> 73421 \<le> right \<Longrightarrow>
         \<exists>r. estimate_call_gas_limit_binary_search_loop helper left right = Inr r
             \<and> 73421 \<le> r \<and> r \<le> 73421 + 5000"
proof (induction "nat (right - left)" arbitrary: left right rule: less_induct)
  case less
  let ?mid = "left + \<lceil>rat_of_int (right - left) / 2\<rceil>"
  have mid: "?mid = left + (right - left + 1) div 2"
    by (simp only: ceiling_half)
  show ?case
  proof (cases "left + 5000 < right")
    case False
    then show ?thesis using less.prems
      by (subst estimate_call_gas_limit_binary_search_loop.simps) simp
  next
    case True
    obtain g d where h: "helper ?mid = Inr (73421 \<le> ?mid, g, d)"
      using H by blast
    show ?thesis
    proof (cases "73421 \<le> ?mid")
      case m: True
      have "nat (?mid - left) < nat (right - left)"
        using True unfolding mid by simp
      then have "\<exists>r. estimate_call_gas_limit_binary_search_loop helper left ?mid = Inr r
             \<and> 73421 \<le> r \<and> r \<le> 73421 + 5000"
        using m less.prems by (intro less.hyps) auto
      then show ?thesis using True h m
        by (subst estimate_call_gas_limit_binary_search_loop.simps) simp
    next
      case m: False
      have "nat (right - (?mid + 1)) < nat (right - left)"
        using True unfolding mid by simp
      then have "\<exists>r. estimate_call_gas_limit_binary_search_loop helper (?mid + 1) right = Inr r
             \<and> 73421 \<le> r \<and> r \<le> 73421 + 5000"
        using m less.prems by (intro less.hyps) auto
      then show ?thesis using True h m
        by (subst estimate_call_gas_limit_binary_search_loop.simps) simp
    qed
  qed
qed

text \<open>
  C7, amended: if the helper succeeds at a gas limit exactly when the limit is at least
  73421, every probe reports a gas used of at least 1, and the initial probe at
  \<open>MAX_CALL_GAS_LIMIT\<close> reports a gas used of at most 73421, then the estimation
  terminates and returns \<open>hex r\<close> with \<open>73421 \<le> r \<le> 73421 + 5000\<close>.
\<close>

theorem estimate_call_gas_limit_binary_search_within_tolerance:
  assumes H: "\<forall>G. \<exists>g d. helper G = Inr (73421 \<le> G, g, d) \<and> 1 \<le> g"
      and g0: "helper MAX_CALL_GAS_LIMIT = Inr (True, g0, d0)" "g0 \<le> 73421"
  shows "\<exists>r. estimate_call_gas_limit_binary_search helper = Some (Inr (hex r))
             \<and> 73421 \<le> r \<and> r \<le> 73421 + 5000"
proof -
  have "1 \<le> g0" using H g0(1) by (metis Inr_inject prod.inject)
  then have "min (2 ^ 1) MAX_CALL_GAS_LIMIT \<le> 2 * g0"
    by (simp add: min_le_iff_disj)
  from expansion_returns [OF H g0(2) this]
  obtain r l where e: "find_max_min_gas helper g0 = Some (Inr (r, l))"
    and l: "l \<le> 73421" and r: "73421 \<le> r"
    unfolding find_max_min_gas_def by blast
  from binary_search_returns [OF H l r]
  obtain r' where b: "estimate_call_gas_limit_binary_search_loop helper l r = Inr r'"
    and r': "73421 \<le> r'" "r' \<le> 73421 + 5000" by blast
  have "estimate_call_gas_limit_binary_search helper = Some (Inr (hex r'))"
    using g0(1) e b by (simp add: estimate_call_gas_limit_binary_search_def)
  then show ?thesis using r' by blast
qed

theorem estimate_call_gas_limit_binary_search_within_tolerance_witness:
  "\<exists>r. estimate_call_gas_limit_binary_search helper_exact = Some (Inr (hex r))
             \<and> 73421 \<le> r \<and> r \<le> 73421 + 5000"
proof -
  have H: "\<forall>G. \<exists>g d. helper_exact G = Inr (73421 \<le> G, g, d) \<and> 1 \<le> g"
    by (simp add: helper_exact_def)
  have g0: "helper_exact MAX_CALL_GAS_LIMIT = Inr (True, 73421, [])"
    by (simp add: helper_exact_def MAX_CALL_GAS_LIMIT_def)
  show ?thesis using estimate_call_gas_limit_binary_search_within_tolerance [OF H g0] by simp
qed

section \<open>Properties of the gas price verification\<close>





section \<open>Properties of the pre-verification gas\<close>

lemma calc_base_preverification_gas_eq:
  assumes "heap_lookup h r = Some (UserOperationObject u)"
  shows "calc_base_preverification_gas pack r h =
     (Inr (let packed = pack ((user_operation_fields u)
                  [6 := FInt 21000,
                   10 := FBytes (if length (signature u) < 65 then replicate 65 1
                                 else signature u)]);
               packed_length = int (length packed);
               zero_byte_count = int (count_list packed 0);
               non_zero_byte_count = packed_length - zero_byte_count;
               call_data_cost = zero_byte_count * 4 + non_zero_byte_count * 16;
               length_in_words = \<lceil>rat_of_int (packed_length + 31) / 32\<rceil>
           in \<lceil>rat_of_int call_data_cost + rat_of_int 21000 / rat_of_int 1
                 + rat_of_int 18300 + rat_of_int (4 * length_in_words)\<rceil>),
      h @ [ListObject ((user_operation_fields u)
                  [6 := FInt 21000,
                   10 := FBytes (if length (signature u) < 65 then replicate 65 1
                                 else signature u)])])"
proof -
  let ?fs = "user_operation_fields u"
  have t: "to_list r h = (Inr (length h), h @ [ListObject ?fs])"
    using assms by (simp add: to_list_def)
  have n: "length ?fs = 11" "?fs ! 10 = FBytes (signature u)"
    by (simp_all add: user_operation_fields_def)
  have s1: "list_setitem (length h) 6 (FInt 21000) (h @ [ListObject ?fs])
              = (Inr (), h @ [ListObject (?fs[6 := FInt 21000])])"
    using n by (simp add: list_setitem_def heap_lookup_def)
  have g: "list_getitem (length h) 10 (h @ [ListObject (?fs[6 := FInt 21000])])
              = (Inr (FBytes (signature u)), h @ [ListObject (?fs[6 := FInt 21000])])"
    using n by (simp add: list_getitem_def heap_lookup_def)
  have s2: "list_setitem (length h) 10 v (h @ [ListObject (?fs[6 := FInt 21000])])
              = (Inr (), h @ [ListObject (?fs[6 := FInt 21000, 10 := v])])" for v
    using n by (simp add: list_setitem_def heap_lookup_def)
  have rd: "read_list (length h) (h @ [ListObject xs]) = (Inr xs, h @ [ListObject xs])" for xs
    by (simp add: read_list_def heap_lookup_def)
  have same: "?fs[6 := FInt 21000, 10 := FBytes (signature u)] = ?fs[6 := FInt 21000]"
    by (simp add: user_operation_fields_def)
  show ?thesis
  proof (cases "length (signature u) < 65")
    case True
    then show ?thesis
      by (simp add: calc_base_preverification_gas_def seq_def t s1 g s2 rd len_def ret_def
            Let_def)
  next
    case False
    then show ?thesis
      by (simp add: calc_base_preverification_gas_def seq_def t s1 g s2 rd len_def ret_def
            Let_def same)
  qed
qed

text \<open>
  C10. \<open>calc_base_preverification_gas\<close> leaves the user operation as it was: the
  operation object at its reference is the same after the call, and so is every object
  allocated before the call. The value 21000 and the dummy signature are stored in the
  list that \<open>to_list\<close> allocated.
\<close>

theorem calc_base_preverification_gas_frame:
  assumes "heap_lookup h r = Some (UserOperationObject u)"
  shows "heap_lookup (snd (calc_base_preverification_gas pack r h)) r
           = Some (UserOperationObject u)
       \<and> (\<forall>r' < length h.
            heap_lookup (snd (calc_base_preverification_gas pack r h)) r' = heap_lookup h r')"
  using assms
  by (auto simp: calc_base_preverification_gas_eq [OF assms] heap_lookup_def nth_append
        split: if_splits)

theorem calc_base_preverification_gas_frame_witness:
  "heap_lookup (snd (calc_base_preverification_gas pack_example 0 heap_one_op)) 0
           = Some (UserOperationObject example_op)
   \<and> pre_verification_gas example_op \<noteq> 21000 \<and> length (signature example_op) < 65"
proof -
  have h: "heap_lookup heap_one_op 0 = Some (UserOperationObject example_op)"
    by (simp add: heap_lookup_def heap_one_op_def)
  show ?thesis using calc_base_preverification_gas_frame [OF h, of pack_example] by (simp add: example_op_def)
qed

lemma ceiling_base:
  "\<lceil>rat_of_int a + rat_of_int 21000 / rat_of_int 1 + rat_of_int 18300 + rat_of_int (4 * w)\<rceil>
     = a + 21000 + 18300 + 4 * w"
proof -
  have "rat_of_int a + rat_of_int 21000 / rat_of_int 1 + rat_of_int 18300 + rat_of_int (4 * w)
          = rat_of_int (a + 21000 + 18300 + 4 * w)"
    by simp
  then show ?thesis by (simp only: ceiling_of_int)
qed

text \<open>
  C6. On a chain other than 10, 420 and 42161 the pre-verification gas is
  \<open>ceil((call_data_cost + 21000/1 + 18300 + 4 * length_words) * coeff/100 + constant)\<close>,
  where the packed bytes are those of the copy with \<open>preVerificationGas = 21000\<close> and
  with the 65-byte dummy signature when the signature is shorter than 65 bytes,
  \<open>call_data_cost = 4 * zero_bytes + 16 * non_zero_bytes\<close> and
  \<open>length_words = ceil((len(packed) + 31) / 32)\<close>; the L1 term is 0.
\<close>

theorem get_preverification_gas_other_chains:
  assumes "heap_lookup h r = Some (UserOperationObject u)"
      and "chain_id \<noteq> 10" "chain_id \<noteq> 420" "chain_id \<noteq> 42161"
  shows "fst (get_preverification_gas chain_id pack getL1Fee gasEstimateL1Component r
                latest_block_base_fee coeff constant h) =
     Inr (let copy = (user_operation_fields u)
                  [6 := FInt 21000,
                   10 := FBytes (if length (signature u) < 65 then replicate 65 1
                                 else signature u)];
              packed = pack copy;
              zero_bytes = int (count_list packed 0);
              non_zero_bytes = int (length packed) - zero_bytes;
              call_data_cost = zero_bytes * 4 + non_zero_bytes * 16;
              length_words = \<lceil>rat_of_int (int (length packed) + 31) / 32\<rceil>
          in \<lceil>(rat_of_int call_data_cost + 21000 / 1 + 18300 + 4 * rat_of_int length_words)
                 * rat_of_int coeff / 100 + rat_of_int constant\<rceil>)"
proof -
  define packed where "packed = pack ((user_operation_fields u)
                  [6 := FInt 21000,
                   10 := FBytes (if length (signature u) < 65 then replicate 65 1
                                 else signature u)])"
  define a where "a = int (count_list packed 0) * 4
                        + (int (length packed) - int (count_list packed 0)) * 16"
  define w where "w = \<lceil>rat_of_int (int (length packed) + 31) / 32\<rceil>"
  define B where "B = \<lceil>rat_of_int a + rat_of_int 21000 / rat_of_int 1 + rat_of_int 18300
                         + rat_of_int (4 * w)\<rceil>"
  have base: "calc_base_preverification_gas pack r h =
     (Inr B, h @ [ListObject ((user_operation_fields u)
                  [6 := FInt 21000,
                   10 := FBytes (if length (signature u) < 65 then replicate 65 1
                                 else signature u)])])"
    unfolding calc_base_preverification_gas_eq [OF assms(1)] B_def a_def w_def packed_def Let_def
    by (rule refl)
  have B: "B = a + 21000 + 18300 + 4 * w"
    unfolding B_def by (rule ceiling_base)
  have "fst (get_preverification_gas chain_id pack getL1Fee gasEstimateL1Component r
                latest_block_base_fee coeff constant h)
          = Inr \<lceil>rat_of_int ((B + 0) * coeff) / 100 + rat_of_int constant\<rceil>"
    using assms(2-4) by (simp add: get_preverification_gas_def seq_def base ret_def Let_def)
  also have "\<lceil>rat_of_int ((B + 0) * coeff) / 100 + rat_of_int constant\<rceil>
      = \<lceil>(rat_of_int a + 21000 / 1 + 18300 + 4 * rat_of_int w) * rat_of_int coeff / 100
           + rat_of_int constant\<rceil>"
    unfolding B by simp
  finally show ?thesis
    unfolding Let_def a_def w_def packed_def .
qed

theorem get_preverification_gas_other_chains_witness:
  "fst (get_preverification_gas 1 pack_example getL1Fee_example gasEstimateL1Component_example
          0 0 100 0 heap_one_op) = Inr 41288"
proof -
  have h: "heap_lookup heap_one_op 0 = Some (UserOperationObject example_op)"
    by (simp add: heap_lookup_def heap_one_op_def)
  have n: "(1::int) \<noteq> 10" "(1::int) \<noteq> 420" "(1::int) \<noteq> 42161"
    by simp_all
  note get_preverification_gas_other_chains [OF h n, of pack_example getL1Fee_example gasEstimateL1Component_example 0 100 0]
  also have "Inr (let copy = (user_operation_fields example_op)
                  [6 := FInt 21000,
                   10 := FBytes (if length (signature example_op) < 65 then replicate 65 1
                                 else signature example_op)];
              packed = pack_example copy;
              zero_bytes = int (count_list packed 0);
              non_zero_bytes = int (length packed) - zero_bytes;
              call_data_cost = zero_bytes * 4 + non_zero_bytes * 16;
              length_words = \<lceil>rat_of_int (int (length packed) + 31) / 32\<rceil>
          in \<lceil>(rat_of_int call_data_cost + 21000 / 1 + 18300 + 4 * rat_of_int length_words)
                 * rat_of_int 100 / 100 + rat_of_int 0\<rceil>) = (Inr 41288 :: exception + int)"
    by code_simp
  finally show ?thesis .
qed

section \<open>Properties of the validation manager\<close>

text \<open>
  Every revert payload whose selector is not that of \<open>FailedOp\<close> goes to the decoder of
  \<open>ValidationResult\<close>; the selector is not looked at again.
\<close>

lemma other_selector_decoded_as_validation_result:
  assumes "eth_call uo = RpcError ''execution reverted'' (Some error_data)"
      and "take 10 error_data \<noteq> FailedOpRevertData_SELECTOR"
  shows "simulate_validation_and_decode_result eth_call dec_fo dec_vr uo
           = decode_validation_result_event dec_vr (drop 10 error_data)"
  using assms
  by (simp add: simulate_validation_and_decode_result_def simulate_validation_def
        check_if_failed_op_error_def)

text \<open>
  C5. A payload whose selector is neither that of \<open>FailedOp\<close> nor that of
  \<open>ValidationResult\<close> is never to give a valid outcome. The code compares the selector
  with that of \<open>FailedOp\<close> only: the payload with selector \<open>0xfaecb4e4\<close> is decoded
  as a validation result and returned as a valid outcome.
\<close>

theorem unknown_selector_yields_valid_outcome:
  "''0xfaecb4e4'' \<noteq> FailedOpRevertData_SELECTOR
   \<and> simulate_validation aggregated_result_node example_op
       = Inr (''0xfaecb4e4'', aggregated_result_params)
   \<and> simulate_validation_and_decode_result aggregated_result_node decode_failed_op_example
        decode_validation_result_example example_op
       = Inr (\<lparr>preOpGas = 200000, prefund = 0, sigFailed = False, validAfter = 0,
                validUntil = 0\<rparr>,
              \<lparr>stake = 1000000000000000000, unstakeDelaySec = 86400\<rparr>,
              \<lparr>stake = 0, unstakeDelaySec = 0\<rparr>,
              \<lparr>stake = 0, unstakeDelaySec = 0\<rparr>)"
  by (simp add: simulate_validation_and_decode_result_def simulate_validation_def
        check_if_failed_op_error_def FailedOpRevertData_SELECTOR_def aggregated_result_node_def
        decode_validation_result_event_def decode_validation_result_example_def
        decoded_aggregated_result_def)

end
